theory Spec2Isabelle
  imports Main
begin

unbundle bit_operations_syntax

section \<open>The configuration loader of gertty (gertty/config.py)\<close>

text \<open>
  The development follows \<^verbatim>\<open>gertty/config.py\<close>: the schema \<^verbatim>\<open>ConfigSchema\<close>, the
  constructor \<^verbatim>\<open>Config.__init__\<close> and the selector \<^verbatim>\<open>Config.getServer\<close>.
  A document that the schema has accepted is a value of the record types below: a key
  the schema marks \<^verbatim>\<open>Required\<close> is a plain field, any other key is an \<open>option\<close> field
  (\<open>None\<close>: the key is absent from the mapping).
\<close>

subsection \<open>Python values and dictionaries\<close>

datatype pyval =
    PyNone
  | PyBool bool
  | PyInt int
  | PyStr string
  | PyList "pyval list"

type_synonym dict = "string \<rightharpoonup> pyval"

text \<open>\<^verbatim>\<open>d.get(key, dflt)\<close>, on the result \<open>d key\<close> of the lookup.\<close>

definition dict_get :: "'a option \<Rightarrow> 'a \<Rightarrow> 'a" where
  "dict_get entry dflt = (case entry of None \<Rightarrow> dflt | Some v \<Rightarrow> v)"

text \<open>\<^verbatim>\<open>s.endswith(suffix)\<close> on strings.\<close>

definition endswith :: "string \<Rightarrow> string \<Rightarrow> bool" where
  "endswith s sfx = (length sfx \<le> length s \<and> drop (length s - length sfx) s = sfx)"

subsection \<open>The validated document\<close>

datatype auth_type = basic | digest | form

record server =
  srv_name :: string
  srv_url :: string
  srv_username :: string
  srv_password :: "string option"
  srv_verify_ssl :: "bool option"
  srv_ssl_ca_path :: "string option"
  srv_dburi :: "string option"
  srv_git_root :: string
  srv_git_url :: "string option"
  srv_log_file :: "string option"
  srv_lock_file :: "string option"
  srv_socket :: "string option"
  srv_auth_type :: "auth_type option"

text \<open>\<^verbatim>\<open>sort_by = v.Any(_sort_by, [_sort_by])\<close>: one criterion or a list of them.\<close>

datatype sort_by = SortBy string | SortByList "string list"

text \<open>
  A \<^verbatim>\<open>palette\<close> or \<^verbatim>\<open>keymap\<close> entry: the required \<^verbatim>\<open>name\<close> and the keys matched by the
  pattern \<^verbatim>\<open>v.Match('(?!name)')\<close>, with values of type \<open>'v\<close>.
\<close>

record 'v entry =
  entry_name :: string
  entry_fields :: "string \<rightharpoonup> 'v"

text \<open>Palette values are \<^verbatim>\<open>[str]\<close>; keymap values are \<^verbatim>\<open>v.Any([[str], str], [str], str)\<close>.\<close>

datatype key_item = KeyStr string | KeyChord "string list"

datatype binding = Binding string | Bindings "key_item list"

datatype replacement =
    Text_replacement "string option" string
  | Link_replacement string string
  | Search_replacement string string

record commentlink =
  cl_match :: string
  cl_replacements :: "replacement list"
  cl_test_result :: "string option"

record dashboard =
  dash_name :: string
  dash_query :: string
  dash_sort_by :: "sort_by option"
  dash_reverse :: "bool option"
  dash_key :: string

record reviewkey =
  rk_approvals :: "(string \<times> int) list"
  rk_message :: "string option"
  rk_submit :: "bool option"
  rk_key :: string

record change_list_options =
  clo_sort_by :: "sort_by option"
  clo_reverse :: "bool option"

text \<open>
  The \<^verbatim>\<open>size-column\<close> mapping is mutated by the constructor, so the document holds a
  reference to it: an address into the store of dictionaries.
\<close>

type_synonym addr = nat

record document =
  doc_servers :: "server list"
  doc_palettes :: "string list entry list option"
  doc_palette :: "string option"
  doc_keymaps :: "binding entry list option"
  doc_keymap :: "string option"
  doc_commentlinks :: "commentlink list option"
  doc_dashboards :: "dashboard list option"
  doc_reviewkeys :: "reviewkey list option"
  doc_change_list_query :: "string option"
  doc_diff_view :: "string option"
  doc_hide_comments :: "string list option"
  doc_thread_changes :: "bool option"
  doc_display_times_in_utc :: "bool option"
  doc_handle_mouse :: "bool option"
  doc_breadcrumbs :: "bool option"
  doc_close_change_on_review :: "bool option"
  doc_change_list_options :: "change_list_options option"
  doc_expire_age :: "string option"
  doc_size_column :: "addr option"

subsection \<open>Server selection\<close>

text \<open>
  \<^verbatim>\<open>Config.getServer\<close>: the loop returns at the first server that the test accepts, and
  \<^verbatim>\<open>None\<close> when the list is exhausted.
\<close>

fun getServer :: "server list \<Rightarrow> string option \<Rightarrow> server option" where
  "getServer [] name = None"
| "getServer (server # rest) name =
     (if name = None \<or> name = Some (srv_name server) then Some server
      else getServer rest name)"

subsection \<open>Collaborating classes\<close>

text \<open>
  Modelled from the spec: the classes \<^verbatim>\<open>gertty.palette.Palette\<close> and
  \<^verbatim>\<open>gertty.keymap.KeyMap\<close> are not among the sources. The spec has them as value objects
  known by the attributes the loader constructs and merges: an object is built from a
  mapping of fields, and \<^verbatim>\<open>update\<close> merges a mapping into it, the fields of the argument
  winning (a shallow update).
\<close>

datatype Palette = Palette (palette_fields: "string \<rightharpoonup> string list")

definition Palette_update :: "Palette \<Rightarrow> (string \<rightharpoonup> string list) \<Rightarrow> Palette" where
  "Palette_update obj config = Palette (palette_fields obj ++ config)"

datatype KeyMap = KeyMap (keymap_fields: "string \<rightharpoonup> binding")

definition KeyMap_update :: "KeyMap \<Rightarrow> (string \<rightharpoonup> binding) \<Rightarrow> KeyMap" where
  "KeyMap_update obj config = KeyMap (keymap_fields obj ++ config)"

text \<open>
  Modelled from the spec: the class \<^verbatim>\<open>gertty.commentlink.CommentLink\<close> is not among the
  sources; a rule object is built from one comment-link mapping and is opaque otherwise.
\<close>

datatype CommentLink = CommentLink commentlink

text \<open>The object \<^verbatim>\<open>re.compile\<close> returns for a pattern it accepts.\<close>

datatype regex = Regex string

subsection \<open>The world around the constructor\<close>

text \<open>
  What the constructor reads from the operating system and from the libraries it calls;
  the module constants \<^verbatim>\<open>gertty.palette.LIGHT_PALETTE\<close> and \<^verbatim>\<open>gertty.keymap.VI_KEYMAP\<close>,
  which are not among the sources, are parameters as well.
\<close>

record os_env =
  path_exists :: "string \<Rightarrow> bool"
  st_mode :: "string \<Rightarrow> nat"
  expanduser :: "string \<Rightarrow> string"
  getpass :: "string \<Rightarrow> string"
  netloc :: "string \<Rightarrow> string"
  re_compile :: "string \<Rightarrow> regex option"
  LIGHT_PALETTE :: "string \<rightharpoonup> string list"
  VI_KEYMAP :: "string \<rightharpoonup> binding"

text \<open>
  What the constructor writes: the store of dictionaries (the \<^verbatim>\<open>size-column\<close> mapping
  lives there, at the address the document holds) and the process environment
  \<^verbatim>\<open>os.environ\<close>.
\<close>

record world =
  heap :: "dict list"
  environ :: "string \<rightharpoonup> string"

text \<open>
  The ways in which the constructor does not return: \<^verbatim>\<open>sys.exit(1)\<close> after
  \<^verbatim>\<open>printSample\<close>; \<^verbatim>\<open>sys.exit(1)\<close> after the message that shows the path of the file and
  its permission bits; the \<^verbatim>\<open>TypeError\<close> of subscripting \<^verbatim>\<open>None\<close> when no server was
  selected; the \<^verbatim>\<open>KeyError\<close> of a palette or keymap name that is not in the collection;
  the error of \<^verbatim>\<open>re.compile\<close> on a pattern it rejects.
\<close>

datatype error =
    MissingConfig
  | InsecurePermissions string nat
  | TypeError
  | KeyError string
  | ReError string

subsection \<open>The steps of the constructor\<close>

text \<open>Lines 158-159 and 191-192: \<^verbatim>\<open>if not url.endswith('/'): url += '/'\<close>.\<close>

definition add_slash :: "string \<Rightarrow> string" where
  "add_slash url = (if \<not> endswith url ''/'' then url @ ''/'' else url)"

text \<open>
  Lines 164-177: the password of the server record, or the answer to the prompt; with a
  password in the file, the permission bits of the file must be \<^verbatim>\<open>0o600\<close> (384),
  read under the mask \<^verbatim>\<open>0o0777\<close> (511).
\<close>

definition get_password :: "os_env \<Rightarrow> string \<Rightarrow> string \<Rightarrow> server \<Rightarrow> error + string" where
  "get_password env path url server =
     (case srv_password server of
        None \<Rightarrow> Inr (getpass env (''Password for '' @ url @ '' ('' @ srv_username server @ ''): ''))
      | Some password \<Rightarrow>
          (let mode = st_mode env path AND 511
           in if \<not> mode = 384 then Inl (InsecurePermissions path mode)
              else Inr password))"

text \<open>
  Lines 206-210 and 215-219: one round of the loop over the user's entries. A name that
  is not in the collection gets a new object, a name that is there has its object updated.
\<close>

definition insert_or_update ::
  "((string \<rightharpoonup> 'v) \<Rightarrow> 'obj) \<Rightarrow> ('obj \<Rightarrow> (string \<rightharpoonup> 'v) \<Rightarrow> 'obj) \<Rightarrow>
   (string \<rightharpoonup> 'obj) \<Rightarrow> 'v entry \<Rightarrow> (string \<rightharpoonup> 'obj)" where
  "insert_or_update new upd coll p =
     (case coll (entry_name p) of
        None \<Rightarrow> coll(entry_name p \<mapsto> new (entry_fields p))
      | Some obj \<Rightarrow> coll(entry_name p \<mapsto> upd obj (entry_fields p)))"

text \<open>Lines 203-205 and 213-214: the collections before the user's entries are read.\<close>

definition builtin_palettes :: "os_env \<Rightarrow> (string \<rightharpoonup> Palette)" where
  "builtin_palettes env =
     [''default'' \<mapsto> Palette Map.empty, ''light'' \<mapsto> Palette (LIGHT_PALETTE env)]"

definition builtin_keymaps :: "os_env \<Rightarrow> (string \<rightharpoonup> KeyMap)" where
  "builtin_keymaps env =
     [''default'' \<mapsto> KeyMap Map.empty, ''vi'' \<mapsto> KeyMap (VI_KEYMAP env)]"

definition load_palettes :: "os_env \<Rightarrow> document \<Rightarrow> (string \<rightharpoonup> Palette)" where
  "load_palettes env doc =
     foldl (insert_or_update Palette Palette_update) (builtin_palettes env)
       (dict_get (doc_palettes doc) [])"

definition load_keymaps :: "os_env \<Rightarrow> document \<Rightarrow> (string \<rightharpoonup> KeyMap)" where
  "load_keymaps env doc =
     foldl (insert_or_update KeyMap KeyMap_update) (builtin_keymaps env)
       (dict_get (doc_keymaps doc) [])"

text \<open>\<^verbatim>\<open>d[key]\<close> on a dictionary: the value, or \<^verbatim>\<open>KeyError\<close>.\<close>

definition getitem :: "(string \<rightharpoonup> 'a) \<Rightarrow> string \<Rightarrow> error + 'a" where
  "getitem d key = (case d key of None \<Rightarrow> Inl (KeyError key) | Some v \<Rightarrow> Inr v)"

text \<open>
  Lines 224-230: the rule the constructor appends, \<^verbatim>\<open>(?P<url>https?://\S*)\<close> with one
  link replacement (character 92 is the backslash).
\<close>

definition url_commentlink :: commentlink where
  "url_commentlink =
     \<lparr>cl_match = ''(?P<url>https?://'' @ [char_of (92::nat)] @ ''S*)'',
      cl_replacements = [Link_replacement ''{url}'' ''{url}''],
      cl_test_result = None\<rparr>"

definition load_commentlinks :: "document \<Rightarrow> CommentLink list" where
  "load_commentlinks doc =
     map CommentLink (dict_get (doc_commentlinks doc) []) @ [CommentLink url_commentlink]"

text \<open>
  An \<^verbatim>\<open>OrderedDict\<close> is the list of its items in insertion order. \<^verbatim>\<open>od[key] = value\<close>
  replaces the value of a key that is there, in place, and appends a new key.
\<close>

type_synonym 'v ordered_dict = "(string \<times> 'v) list"

fun od_setitem :: "'v ordered_dict \<Rightarrow> string \<Rightarrow> 'v \<Rightarrow> 'v ordered_dict" where
  "od_setitem [] key v = [(key, v)]"
| "od_setitem ((k, x) # rest) key v =
     (if k = key then (k, v) # rest else (k, x) # od_setitem rest key v)"

text \<open>\<^verbatim>\<open>od[key]\<close> and the iteration over the keys.\<close>

definition od_get :: "'v ordered_dict \<Rightarrow> string \<Rightarrow> 'v option" where
  "od_get od key = map_of od key"

definition od_keys :: "'v ordered_dict \<Rightarrow> string list" where
  "od_keys od = map fst od"

text \<open>Lines 236-243: the loops that fill \<^verbatim>\<open>self.dashboards\<close> and \<^verbatim>\<open>self.reviewkeys\<close>.\<close>

definition load_dashboards :: "document \<Rightarrow> dashboard ordered_dict" where
  "load_dashboards doc =
     foldl (\<lambda>od d. od_setitem od (dash_key d) d) [] (dict_get (doc_dashboards doc) [])"

definition load_reviewkeys :: "document \<Rightarrow> reviewkey ordered_dict" where
  "load_reviewkeys doc =
     foldl (\<lambda>od k. od_setitem od (rk_key k) k) [] (dict_get (doc_reviewkeys doc) [])"

text \<open>Lines 245-247: the authors to hide, compiled in order; the first failure ends it.\<close>

fun compile_authors :: "os_env \<Rightarrow> string list \<Rightarrow> error + regex list" where
  "compile_authors env [] = Inr []"
| "compile_authors env (author # rest) =
     (case re_compile env author of
        None \<Rightarrow> Inl (ReError author)
      | Some r \<Rightarrow>
          (case compile_authors env rest of
             Inl e \<Rightarrow> Inl e
           | Inr rs \<Rightarrow> Inr (r # rs)))"

text \<open>
  Lines 262-269. \<^verbatim>\<open>self.config.get('size-column', {})\<close> is the document's own mapping
  when the key is there and a new empty one otherwise; the two assignments then write
  into that mapping.
\<close>

definition thresholds_graph :: pyval where
  "thresholds_graph = PyList [PyInt 1, PyInt 10, PyInt 100, PyInt 1000]"

definition thresholds_other :: pyval where
  "thresholds_other =
     PyList [PyInt 1, PyInt 10, PyInt 100, PyInt 200, PyInt 400, PyInt 600, PyInt 800, PyInt 1000]"

definition load_size_column :: "document \<Rightarrow> dict list \<Rightarrow> addr \<times> dict list" where
  "load_size_column doc h =
     (let (size_column, h0) =
            (case doc_size_column doc of
               Some a \<Rightarrow> (a, h)
             | None \<Rightarrow> (length h, h @ [Map.empty]));
          type = dict_get ((h0 ! size_column) ''type'') (PyStr ''graph'');
          h1 = h0[size_column := (h0 ! size_column)(''type'' \<mapsto> type)];
          thresholds =
            (if (h1 ! size_column) ''type'' = Some (PyStr ''graph'')
             then dict_get ((h1 ! size_column) ''thresholds'') thresholds_graph
             else dict_get ((h1 ! size_column) ''thresholds'') thresholds_other);
          h2 = h1[size_column := (h1 ! size_column)(''thresholds'' \<mapsto> thresholds)]
      in (size_column, h2))"

text \<open>Lines 178-188: what the TLS options write into \<^verbatim>\<open>os.environ\<close>.\<close>

definition tls_environ :: "os_env \<Rightarrow> server \<Rightarrow> (string \<rightharpoonup> string) \<Rightarrow> (string \<rightharpoonup> string)" where
  "tls_environ env server e =
     (let e1 = (if \<not> dict_get (srv_verify_ssl server) True
                then e(''GIT_SSL_NO_VERIFY'' \<mapsto> ''true'') else e)
      in case srv_ssl_ca_path server of
           None \<Rightarrow> e1
         | Some p \<Rightarrow> e1(''REQUESTS_CA_BUNDLE'' \<mapsto> expanduser env p,
                         ''GIT_SSL_CAINFO'' \<mapsto> expanduser env p))"

subsection \<open>The constructor\<close>

text \<open>The attributes of a \<^verbatim>\<open>Config\<close> object; \<open>cfg_config\<close> is \<^verbatim>\<open>self.config\<close>, the document.\<close>

record Config =
  cfg_path :: string
  cfg_config :: document
  cfg_server :: server
  cfg_url :: string
  cfg_hostname :: string
  cfg_username :: string
  cfg_password :: string
  cfg_auth_type :: auth_type
  cfg_verify_ssl :: bool
  cfg_ssl_ca_path :: "string option"
  cfg_git_root :: string
  cfg_git_url :: string
  cfg_dburi :: string
  cfg_socket_path :: string
  cfg_log_file :: string
  cfg_lock_file :: string
  cfg_palettes :: "string \<rightharpoonup> Palette"
  cfg_palette :: Palette
  cfg_keymaps :: "string \<rightharpoonup> KeyMap"
  cfg_keymap :: KeyMap
  cfg_commentlinks :: "CommentLink list"
  cfg_project_change_list_query :: string
  cfg_diff_view :: string
  cfg_dashboards :: "dashboard ordered_dict"
  cfg_reviewkeys :: "reviewkey ordered_dict"
  cfg_hide_comments :: "regex list"
  cfg_thread_changes :: bool
  cfg_utc :: bool
  cfg_breadcrumbs :: bool
  cfg_close_change_on_review :: bool
  cfg_handle_mouse :: bool
  cfg_change_list_options :: "sort_by \<times> bool"
  cfg_expire_age :: string
  cfg_size_column :: addr

text \<open>
  \<^verbatim>\<open>Config.__init__(self, server, palette, keymap, path)\<close>, on the document \<open>doc\<close> that
  \<^verbatim>\<open>yaml.safe_load\<close> returned and the schema accepted. The steps are in the order of the
  source, so that the first failure is the one the source has.
\<close>

definition Config_init ::
  "os_env \<Rightarrow> document \<Rightarrow> string option \<Rightarrow> string \<Rightarrow> string \<Rightarrow> string \<Rightarrow> world \<Rightarrow>
   error + Config \<times> world" where
  "Config_init env doc server palette keymap path w =
     (let self_path = expanduser env path in
      if \<not> path_exists env self_path then Inl MissingConfig
      else
       (case getServer (doc_servers doc) server of
          None \<Rightarrow> Inl TypeError
        | Some server \<Rightarrow>
       (let url = add_slash (srv_url server) in
       (case get_password env self_path url server of
          Inl e \<Rightarrow> Inl e
        | Inr password \<Rightarrow>
       (let environ1 = tls_environ env server (environ w);
            git_url = add_slash (dict_get (srv_git_url server) (url @ ''p/''));
            palettes = load_palettes env doc in
       (case getitem palettes (dict_get (doc_palette doc) palette) of
          Inl e \<Rightarrow> Inl e
        | Inr the_palette \<Rightarrow>
       (let keymaps = load_keymaps env doc in
       (case getitem keymaps (dict_get (doc_keymap doc) keymap) of
          Inl e \<Rightarrow> Inl e
        | Inr the_keymap \<Rightarrow>
       (case compile_authors env (dict_get (doc_hide_comments doc) []) of
          Inl e \<Rightarrow> Inl e
        | Inr hide_comments \<Rightarrow>
       (let change_list_options =
              dict_get (doc_change_list_options doc) \<lparr>clo_sort_by = None, clo_reverse = None\<rparr>;
            (size_column, heap1) = load_size_column doc (heap w)
        in Inr
        (\<lparr>cfg_path = self_path,
          cfg_config = doc,
          cfg_server = server,
          cfg_url = url,
          cfg_hostname = netloc env url,
          cfg_username = srv_username server,
          cfg_password = password,
          cfg_auth_type = dict_get (srv_auth_type server) digest,
          cfg_verify_ssl = dict_get (srv_verify_ssl server) True,
          cfg_ssl_ca_path = map_option (expanduser env) (srv_ssl_ca_path server),
          cfg_git_root = expanduser env (srv_git_root server),
          cfg_git_url = git_url,
          cfg_dburi = dict_get (srv_dburi server)
                        (''sqlite:///'' @ expanduser env ''~/.gertty.db''),
          cfg_socket_path = expanduser env (dict_get (srv_socket server) ''~/.gertty.sock''),
          cfg_log_file = expanduser env (dict_get (srv_log_file server) ''~/.gertty.log''),
          cfg_lock_file = expanduser env (dict_get (srv_lock_file server)
                                           (''~/.gertty.'' @ srv_name server @ ''.lock'')),
          cfg_palettes = palettes,
          cfg_palette = the_palette,
          cfg_keymaps = keymaps,
          cfg_keymap = the_keymap,
          cfg_commentlinks = load_commentlinks doc,
          cfg_project_change_list_query = dict_get (doc_change_list_query doc) ''status:open'',
          cfg_diff_view = dict_get (doc_diff_view doc) ''side-by-side'',
          cfg_dashboards = load_dashboards doc,
          cfg_reviewkeys = load_reviewkeys doc,
          cfg_hide_comments = hide_comments,
          cfg_thread_changes = dict_get (doc_thread_changes doc) True,
          cfg_utc = dict_get (doc_display_times_in_utc doc) False,
          cfg_breadcrumbs = dict_get (doc_breadcrumbs doc) True,
          cfg_close_change_on_review = dict_get (doc_close_change_on_review doc) False,
          cfg_handle_mouse = dict_get (doc_handle_mouse doc) True,
          cfg_change_list_options =
            (dict_get (clo_sort_by change_list_options) (SortBy ''number''),
             dict_get (clo_reverse change_list_options) False),
          cfg_expire_age = dict_get (doc_expire_age doc) ''2 months'',
          cfg_size_column = size_column\<rparr>,
         \<lparr>heap = heap1, environ = environ1\<rparr>)))))))))))"

subsection \<open>The threshold validator of the schema\<close>

text \<open>
  \<^verbatim>\<open>ConfigSchema.thresholds\<close> is the Python list \<^verbatim>\<open>[int, int, int, int, int, int, int, int]\<close>,
  which the schema library (voluptuous) compiles as it compiles every list: the data
  must be a list, and each of its elements must pass one of the validators in the schema
  list, tried in order; a schema list that is empty accepts the empty list only. The
  type \<^verbatim>\<open>int\<close> as a validator is the test \<^verbatim>\<open>isinstance(value, int)\<close>, which holds of
  integers and of booleans.
\<close>

fun validate_int :: "pyval \<Rightarrow> bool" where
  "validate_int (PyInt i) = True"
| "validate_int (PyBool b) = True"
| "validate_int v = False"


definition thresholds :: "(pyval \<Rightarrow> bool) list" where
  "thresholds = [validate_int, validate_int, validate_int, validate_int,
                 validate_int, validate_int, validate_int, validate_int]"

subsection \<open>Notions the properties are stated with\<close>

text \<open>A string ends with exactly one slash: with a slash, and not with two.\<close>

definition one_trailing_slash :: "string \<Rightarrow> bool" where
  "one_trailing_slash s = (endswith s ''/'' \<and> \<not> endswith s ''//'')"

text \<open>An attribute of the object the constructor returned, if it returned.\<close>

fun attr :: "(Config \<Rightarrow> 'a) \<Rightarrow> error + Config \<times> world \<Rightarrow> 'a option" where
  "attr f (Inl e) = None"
| "attr f (Inr (cfg, w)) = Some (f cfg)"

text \<open>
  The \<^verbatim>\<open>size_column\<close> mapping of the object the constructor returned, read from the
  store the constructor left.
\<close>

fun size_column_of :: "error + Config \<times> world \<Rightarrow> dict option" where
  "size_column_of (Inl e) = None"
| "size_column_of (Inr (cfg, w)) = Some (heap w ! cfg_size_column cfg)"

text \<open>
  The fields that the user's entries of one name bring, merged in document order (later
  entries winning).
\<close>

definition user_fields :: "string \<Rightarrow> 'v entry list \<Rightarrow> (string \<rightharpoonup> 'v)" where
  "user_fields n ps = foldl (++) Map.empty (map entry_fields (filter (\<lambda>p. entry_name p = n) ps))"

text \<open>The keys of a list in the order in which each is seen first.\<close>

definition first_seen :: "string list \<Rightarrow> string list" where
  "first_seen ks = rev (remdups (rev ks))"

subsection \<open>A concrete configuration\<close>

text \<open>
  A file with mode \<^verbatim>\<open>0o100600\<close> (33152), a home directory \<^verbatim>\<open>/home/u\<close>, and a document
  with one server that stores its password.
\<close>

definition example_env :: os_env where
  "example_env =
     \<lparr>path_exists = (\<lambda>p. True),
      st_mode = (\<lambda>p. 33152),
      expanduser = (\<lambda>p. case p of CHR ''~'' # rest \<Rightarrow> ''/home/u'' @ rest | _ \<Rightarrow> p),
      getpass = (\<lambda>prompt. ''typed''),
      netloc = (\<lambda>u. takeWhile (\<lambda>c. c \<noteq> CHR ''/'') (drop 8 u)),
      re_compile = (\<lambda>p. Some (Regex p)),
      LIGHT_PALETTE = [''focused-header'' \<mapsto> [''black'', ''light gray'']],
      VI_KEYMAP = [''quit'' \<mapsto> Binding ''q'']\<rparr>"

definition example_server :: server where
  "example_server =
     \<lparr>srv_name = ''prod'',
      srv_url = ''https://review.example.org'',
      srv_username = ''alice'',
      srv_password = Some ''hunter2'',
      srv_verify_ssl = None,
      srv_ssl_ca_path = None,
      srv_dburi = None,
      srv_git_root = ''~/git'',
      srv_git_url = None,
      srv_log_file = None,
      srv_lock_file = None,
      srv_socket = None,
      srv_auth_type = None\<rparr>"

definition example_doc :: document where
  "example_doc =
     \<lparr>doc_servers = [example_server],
      doc_palettes = None,
      doc_palette = None,
      doc_keymaps = None,
      doc_keymap = None,
      doc_commentlinks = None,
      doc_dashboards = None,
      doc_reviewkeys = None,
      doc_change_list_query = None,
      doc_diff_view = None,
      doc_hide_comments = None,
      doc_thread_changes = None,
      doc_display_times_in_utc = None,
      doc_handle_mouse = None,
      doc_breadcrumbs = None,
      doc_close_change_on_review = None,
      doc_change_list_options = None,
      doc_expire_age = None,
      doc_size_column = None\<rparr>"

definition example_world :: world where
  "example_world = \<lparr>heap = [], environ = Map.empty\<rparr>"

text \<open>Three dashboards, the first and the last under the same key.\<close>

definition example_dashboards :: "dashboard list" where
  "example_dashboards =
     [\<lparr>dash_name = ''Mine'', dash_query = ''owner:self'', dash_sort_by = None,
       dash_reverse = None, dash_key = ''f2''\<rparr>,
      \<lparr>dash_name = ''Starred'', dash_query = ''is:starred'', dash_sort_by = None,
       dash_reverse = None, dash_key = ''f3''\<rparr>,
      \<lparr>dash_name = ''Watched'', dash_query = ''is:watched'', dash_sort_by = None,
       dash_reverse = Some True, dash_key = ''f2''\<rparr>]"

text \<open>Two palette entries: one for the built-in name \<^verbatim>\<open>light\<close>, one for a new name.\<close>

definition example_palettes :: "string list entry list" where
  "example_palettes =
     [\<lparr>entry_name = ''light'', entry_fields = [''added-line'' \<mapsto> [''dark green'', ''black'']]\<rparr>,
      \<lparr>entry_name = ''custom'', entry_fields = [''focused-header'' \<mapsto> [''white'', ''dark blue'']]\<rparr>]"

text \<open>
  A store whose only dictionary is the \<^verbatim>\<open>size-column\<close> mapping of a document that gives
  the type \<^verbatim>\<open>number\<close> and no thresholds.
\<close>

definition example_size_world :: world where
  "example_size_world = \<lparr>heap = [[''type'' \<mapsto> PyStr ''number'']], environ = Map.empty\<rparr>"

section \<open>Properties\<close>

subsection \<open>What a successful construction says\<close>

lemma init_success:
  assumes "Config_init env doc server palette keymap path w = Inr (cfg, w')"
  obtains srv pw pal km hc where
    "path_exists env (expanduser env path)"
    "getServer (doc_servers doc) server = Some srv"
    "get_password env (expanduser env path) (add_slash (srv_url srv)) srv = Inr pw"
    "getitem (load_palettes env doc) (dict_get (doc_palette doc) palette) = Inr pal"
    "getitem (load_keymaps env doc) (dict_get (doc_keymap doc) keymap) = Inr km"
    "compile_authors env (dict_get (doc_hide_comments doc) []) = Inr hc"
    "cfg_server cfg = srv" "cfg_url cfg = add_slash (srv_url srv)"
    "cfg_git_url cfg = add_slash (dict_get (srv_git_url srv) (add_slash (srv_url srv) @ ''p/''))"
    "cfg_password cfg = pw"
    "cfg_palettes cfg = load_palettes env doc" "cfg_palette cfg = pal"
    "cfg_keymaps cfg = load_keymaps env doc" "cfg_keymap cfg = km"
    "cfg_commentlinks cfg = load_commentlinks doc"
    "cfg_dashboards cfg = load_dashboards doc"
    "cfg_reviewkeys cfg = load_reviewkeys doc"
    "cfg_config cfg = doc"
    "cfg_size_column cfg = fst (load_size_column doc (heap w))"
    "heap w' = snd (load_size_column doc (heap w))"
  using assms
  unfolding Config_init_def Let_def
  by (auto split: if_splits option.splits sum.splits prod.splits)

lemmas example_defs = example_env_def example_doc_def example_server_def example_world_def

lemmas step_defs = add_slash_def endswith_def get_password_def dict_get_def getitem_def
  load_palettes_def load_keymaps_def load_commentlinks_def load_dashboards_def
  load_reviewkeys_def load_size_column_def tls_environ_def insert_or_update_def
  builtin_palettes_def builtin_keymaps_def

lemma example_succeeds:
  "\<exists>cfg w'. Config_init example_env example_doc None ''default'' ''default'' ''~/.gertty.yaml''
      example_world = Inr (cfg, w')"
  by (simp add: Config_init_def example_defs step_defs Let_def)

subsection \<open>Server selection\<close>

text \<open>
  C9. With no requested name, \<^verbatim>\<open>getServer\<close> returns the first server of a non-empty
  list; with a requested name it returns the first server of that name; and it returns
  \<^verbatim>\<open>None\<close> when no server has the requested name.
\<close>

theorem getServer_selection:
  "(doc_servers doc \<noteq> [] \<longrightarrow> getServer (doc_servers doc) None = Some (hd (doc_servers doc)))
   \<and> getServer (doc_servers doc) (Some n) = find (\<lambda>s. srv_name s = n) (doc_servers doc)
   \<and> (n \<notin> srv_name ` set (doc_servers doc) \<longrightarrow> getServer (doc_servers doc) (Some n) = None)"
proof -
  have sel: "getServer servers (Some n) = find (\<lambda>s. srv_name s = n) servers" for servers
    by (induction servers) auto
  have first: "servers \<noteq> [] \<longrightarrow> getServer servers None = Some (hd servers)"
    for servers :: "server list"
    by (cases servers) auto
  have none: "n \<notin> srv_name ` set servers \<longrightarrow> find (\<lambda>s. srv_name s = n) servers = None"
    for servers :: "server list"
    by (auto simp: find_None_iff)
  show ?thesis using sel first none by simp
qed

theorem getServer_selection_witness:
  "getServer [example_server, example_server\<lparr>srv_name := ''test''\<rparr>] None = Some example_server
   \<and> getServer [example_server, example_server\<lparr>srv_name := ''test''\<rparr>] (Some ''test'')
       = Some (example_server\<lparr>srv_name := ''test''\<rparr>)
   \<and> getServer [example_server, example_server\<lparr>srv_name := ''test''\<rparr>] (Some ''dev'') = None"
  using getServer_selection
    [of "example_doc\<lparr>doc_servers := [example_server, example_server\<lparr>srv_name := ''test''\<rparr>]\<rparr>"
        "''test''"]
    getServer_selection
    [of "example_doc\<lparr>doc_servers := [example_server, example_server\<lparr>srv_name := ''test''\<rparr>]\<rparr>"
        "''dev''"]
  by (simp add: example_server_def)

subsection \<open>Comment links\<close>



subsection \<open>Trailing slashes\<close>

lemma endswith_iff: "endswith s sfx \<longleftrightarrow> (\<exists>r. s = r @ sfx)"
proof
  assume "endswith s sfx"
  then have "s = take (length s - length sfx) s @ sfx"
    by (metis append_take_drop_id endswith_def)
  then show "\<exists>r. s = r @ sfx" ..
next
  assume "\<exists>r. s = r @ sfx"
  then show "endswith s sfx" by (auto simp: endswith_def)
qed

lemma add_slash_ends: "endswith (add_slash u) ''/''"
  by (auto simp: add_slash_def endswith_iff)

lemma add_slash_one:
  assumes "\<not> endswith u ''//''"
  shows "one_trailing_slash (add_slash u)"
proof (cases "endswith u ''/''")
  case True
  with assms show ?thesis by (simp add: add_slash_def one_trailing_slash_def)
next
  case False
  have "\<not> endswith (u @ ''/'') ''//''"
  proof
    assume "endswith (u @ ''/'') ''//''"
    then obtain r where "u @ ''/'' = r @ ''//''" by (auto simp: endswith_iff)
    then have "u = r @ ''/''" by simp
    with False show False by (simp add: endswith_iff)
  qed
  with False show ?thesis
    by (simp add: add_slash_def one_trailing_slash_def endswith_iff)
qed

lemma not_two_slashes_after_p: "\<not> endswith (u @ ''p/'') ''//''"
  by (auto simp: endswith_iff)

lemma single_server:
  assumes "getServer [s] server = Some srv"
  shows "srv = s"
  using assms by (simp split: if_splits)

text \<open>
  C2, as the code has it. With a single server, the resolved \<^verbatim>\<open>url\<close> is the input when the
  input ends with a slash and the input followed by one slash otherwise, and
  \<^verbatim>\<open>git_url\<close> likewise (its default is the resolved \<^verbatim>\<open>url\<close> followed by \<^verbatim>\<open>p/\<close>). Both
  end with a slash; each ends with exactly one slash provided its input does not end with
  two slashes.
\<close>

theorem urls_end_with_slash:
  assumes "Config_init env doc server palette keymap path w = Inr (cfg, w')"
    and "doc_servers doc = [s]"
  shows "cfg_url cfg = (if endswith (srv_url s) ''/'' then srv_url s else srv_url s @ ''/'')
       \<and> endswith (cfg_url cfg) ''/''
       \<and> (\<not> endswith (srv_url s) ''//'' \<longrightarrow> one_trailing_slash (cfg_url cfg))
       \<and> cfg_git_url cfg =
           (case srv_git_url s of
              None \<Rightarrow> cfg_url cfg @ ''p/''
            | Some g \<Rightarrow> if endswith g ''/'' then g else g @ ''/'')
       \<and> endswith (cfg_git_url cfg) ''/''
       \<and> ((\<forall>g. srv_git_url s = Some g \<longrightarrow> \<not> endswith g ''//'')
            \<longrightarrow> one_trailing_slash (cfg_git_url cfg))"
proof -
  from assms(1) obtain srv where
    srv: "getServer (doc_servers doc) server = Some srv"
    and url: "cfg_url cfg = add_slash (srv_url srv)"
    and git: "cfg_git_url cfg =
                add_slash (dict_get (srv_git_url srv) (add_slash (srv_url srv) @ ''p/''))"
    by (rule init_success)
  from srv assms(2) have [simp]: "srv = s" by (simp add: single_server)
  have u1: "cfg_url cfg = (if endswith (srv_url s) ''/'' then srv_url s else srv_url s @ ''/'')"
    using url by (simp add: add_slash_def)
  have u2: "endswith (cfg_url cfg) ''/''"
    using url by (simp add: add_slash_ends)
  have u3: "\<not> endswith (srv_url s) ''//'' \<longrightarrow> one_trailing_slash (cfg_url cfg)"
    using url by (simp add: add_slash_one)
  have g1: "cfg_git_url cfg =
           (case srv_git_url s of
              None \<Rightarrow> cfg_url cfg @ ''p/''
            | Some g \<Rightarrow> if endswith g ''/'' then g else g @ ''/'')"
    using git url by (simp add: add_slash_def dict_get_def endswith_iff split: option.splits)
  have g2: "endswith (cfg_git_url cfg) ''/''"
    using git by (simp add: add_slash_ends)
  have g3: "(\<forall>g. srv_git_url s = Some g \<longrightarrow> \<not> endswith g ''//'')
            \<longrightarrow> one_trailing_slash (cfg_git_url cfg)"
    using git by (cases "srv_git_url s")
      (simp_all add: dict_get_def add_slash_one not_two_slashes_after_p)
  from u1 u2 u3 g1 g2 g3 show ?thesis by blast
qed

theorem urls_end_with_slash_witness:
  "attr cfg_url
     (Config_init example_env example_doc None ''default'' ''default'' ''~/.gertty.yaml''
        example_world) = Some ''https://review.example.org/''
   \<and> attr cfg_git_url
     (Config_init example_env example_doc None ''default'' ''default'' ''~/.gertty.yaml''
        example_world) = Some ''https://review.example.org/p/''
   \<and> one_trailing_slash ''https://review.example.org/''
   \<and> one_trailing_slash ''https://review.example.org/p/''"
proof -
  obtain cfg w' where ok:
    "Config_init example_env example_doc None ''default'' ''default'' ''~/.gertty.yaml''
       example_world = Inr (cfg, w')"
    using example_succeeds by blast
  have one: "doc_servers example_doc = [example_server]"
    by (simp add: example_doc_def)
  note th = urls_end_with_slash [OF ok one]
  have u: "cfg_url cfg = ''https://review.example.org/''"
    using th by (simp add: example_server_def endswith_def)
  have g: "cfg_git_url cfg = ''https://review.example.org/p/''"
    using th by (simp add: u example_server_def)
  have u1: "one_trailing_slash (cfg_url cfg)"
    using th by (auto simp: example_server_def endswith_def)
  have g1: "one_trailing_slash (cfg_git_url cfg)"
    using th by (auto simp: example_server_def)
  from u g u1 g1 show ?thesis by (simp add: ok)
qed

text \<open>
  An input \<^verbatim>\<open>url\<close> that ends with two slashes is kept as it is, so the resolved \<^verbatim>\<open>url\<close>
  does not end with exactly one slash.
\<close>

theorem two_slashes_counterexample:
  "attr cfg_url
     (Config_init example_env
        (example_doc\<lparr>doc_servers := [example_server\<lparr>srv_url := ''https://review.example.org//''\<rparr>]\<rparr>)
        None ''default'' ''default'' ''~/.gertty.yaml'' example_world)
     = Some ''https://review.example.org//''
   \<and> \<not> one_trailing_slash ''https://review.example.org//''"
  by (simp add: Config_init_def example_defs step_defs Let_def one_trailing_slash_def)

subsection \<open>The active palette and keymap\<close>

text \<open>
  C1, as the code has it. The active palette is the entry of the collection named by the
  document's \<^verbatim>\<open>palette\<close> field when the document has one, and the entry named by the
  constructor's parameter only when the document has none; the same holds of the keymap.
\<close>

theorem document_palette_wins:
  assumes "Config_init env doc server palette keymap path w = Inr (cfg, w')"
  shows "(\<forall>n. doc_palette doc = Some n \<longrightarrow> cfg_palettes cfg n = Some (cfg_palette cfg))
       \<and> (doc_palette doc = None \<longrightarrow> cfg_palettes cfg palette = Some (cfg_palette cfg))
       \<and> (\<forall>n. doc_keymap doc = Some n \<longrightarrow> cfg_keymaps cfg n = Some (cfg_keymap cfg))
       \<and> (doc_keymap doc = None \<longrightarrow> cfg_keymaps cfg keymap = Some (cfg_keymap cfg))"
proof -
  from assms obtain pal km where
    p: "getitem (load_palettes env doc) (dict_get (doc_palette doc) palette) = Inr pal"
    and k: "getitem (load_keymaps env doc) (dict_get (doc_keymap doc) keymap) = Inr km"
    and eqs: "cfg_palettes cfg = load_palettes env doc" "cfg_palette cfg = pal"
      "cfg_keymaps cfg = load_keymaps env doc" "cfg_keymap cfg = km"
    by (rule init_success)
  from p have "load_palettes env doc (dict_get (doc_palette doc) palette) = Some pal"
    by (simp add: getitem_def split: option.splits)
  moreover from k have "load_keymaps env doc (dict_get (doc_keymap doc) keymap) = Some km"
    by (simp add: getitem_def split: option.splits)
  ultimately show ?thesis using eqs by (auto simp: dict_get_def)
qed

theorem document_palette_wins_witness:
  "attr cfg_palette
     (Config_init example_env (example_doc\<lparr>doc_palette := Some ''light''\<rparr>) None
        ''default'' ''default'' ''~/.gertty.yaml'' example_world)
     = Some (Palette (LIGHT_PALETTE example_env))
   \<and> attr cfg_keymap
     (Config_init example_env (example_doc\<lparr>doc_palette := Some ''light''\<rparr>) None
        ''default'' ''vi'' ''~/.gertty.yaml'' example_world)
     = Some (KeyMap (VI_KEYMAP example_env))"
proof -
  let ?doc = "example_doc\<lparr>doc_palette := Some ''light''\<rparr>"
  obtain cfg w' where ok:
    "Config_init example_env ?doc None ''default'' ''default'' ''~/.gertty.yaml''
       example_world = Inr (cfg, w')"
    by (simp add: Config_init_def example_defs step_defs Let_def)
  obtain cfg2 w2 where ok2:
    "Config_init example_env ?doc None ''default'' ''vi'' ''~/.gertty.yaml''
       example_world = Inr (cfg2, w2)"
    by (simp add: Config_init_def example_defs step_defs Let_def)
  have pals: "cfg_palettes cfg = load_palettes example_env ?doc"
    using ok by (rule init_success)
  have kms: "cfg_keymaps cfg2 = load_keymaps example_env ?doc"
    using ok2 by (rule init_success)
  from document_palette_wins [OF ok]
  have "cfg_palette cfg = Palette (LIGHT_PALETTE example_env)"
    by (simp add: pals load_palettes_def builtin_palettes_def example_doc_def dict_get_def)
  moreover from document_palette_wins [OF ok2]
  have "cfg_keymap cfg2 = KeyMap (VI_KEYMAP example_env)"
    by (simp add: kms load_keymaps_def builtin_keymaps_def example_doc_def dict_get_def)
  ultimately show ?thesis by (simp add: ok ok2)
qed

text \<open>
  A document that declares the palette \<^verbatim>\<open>default\<close>, constructed with the parameter
  \<^verbatim>\<open>light\<close>: the active palette is the \<^verbatim>\<open>default\<close> one, not the \<^verbatim>\<open>light\<close> one.
\<close>

theorem override_counterexample:
  "attr cfg_palette
     (Config_init example_env (example_doc\<lparr>doc_palette := Some ''default''\<rparr>) None
        ''light'' ''default'' ''~/.gertty.yaml'' example_world)
     = Some (Palette Map.empty)
   \<and> load_palettes example_env (example_doc\<lparr>doc_palette := Some ''default''\<rparr>) ''light''
       = Some (Palette (LIGHT_PALETTE example_env))
   \<and> Palette (LIGHT_PALETTE example_env) \<noteq> Palette Map.empty"
  by (simp add: Config_init_def example_defs step_defs Let_def)

subsection \<open>The stored password and the permissions of the file\<close>

lemma compile_authors_st_mode [simp]:
  "compile_authors (env\<lparr>st_mode := m\<rparr>) xs = compile_authors env xs"
  by (induction xs) (auto split: option.splits sum.splits)




subsection \<open>The threshold validator\<close>





subsection \<open>Dashboards and review keys\<close>

lemma od_keys_setitem:
  "od_keys (od_setitem od k v) = (if k \<in> set (od_keys od) then od_keys od else od_keys od @ [k])"
  by (induction od k v rule: od_setitem.induct) (auto simp: od_keys_def)

lemma od_get_setitem: "od_get (od_setitem od k v) = (od_get od)(k \<mapsto> v)"
  by (induction od k v rule: od_setitem.induct) (auto simp: od_get_def)

lemma first_seen_snoc:
  "first_seen (ks @ [k]) = (if k \<in> set ks then first_seen ks else first_seen ks @ [k])"
  by (simp add: first_seen_def)

lemma set_first_seen: "set (first_seen ks) = set ks"
  by (simp add: first_seen_def)

lemma distinct_first_seen: "distinct (first_seen ks)"
  by (simp add: first_seen_def)

lemma keyed_keys:
  "od_keys (foldl (\<lambda>od x. od_setitem od (key x) x) [] xs) = first_seen (map key xs)"
proof (induction xs rule: rev_induct)
  case Nil
  show ?case by (simp add: od_keys_def first_seen_def)
next
  case (snoc x xs)
  then show ?case
    by (simp add: od_keys_setitem first_seen_snoc set_first_seen)
qed

lemma keyed_get:
  "od_get (foldl (\<lambda>od x. od_setitem od (key x) x) [] xs) k = find (\<lambda>x. key x = k) (rev xs)"
proof (induction xs rule: rev_induct)
  case Nil
  show ?case by (simp add: od_get_def)
next
  case (snoc x xs)
  then show ?case by (simp add: od_get_setitem)
qed

lemma filter_eq_distinct:
  "distinct xs \<Longrightarrow> filter (\<lambda>x. x = k) xs = (if k \<in> set xs then [k] else [])"
  by (induction xs) auto

lemma find_app:
  "find P (xs @ ys) = (case find P xs of None \<Rightarrow> find P ys | Some x \<Rightarrow> Some x)"
  by (induction xs) auto

lemma find_later:
  assumes "key d2 = k" and "\<forall>x \<in> set zs. key x \<noteq> k"
  shows "find (\<lambda>x. key x = k) (rev (xs @ d1 # ys @ d2 # zs)) = Some d2"
proof -
  have "find (\<lambda>x. key x = k) (rev zs) = None"
    using assms(2) by (simp add: find_None_iff)
  then show ?thesis using assms(1) by (simp add: find_app)
qed

text \<open>
  C6. The keys of the resolved \<^verbatim>\<open>dashboards\<close> mapping are the keys of the list in the
  order in which each is first seen, each of them once; the value under a key is the
  last entry of the list with that key. So for a list with two entries of one key (and
  none of that key after the second) the mapping has exactly one entry for the key, and
  its value is the later of the two. The same holds of \<^verbatim>\<open>reviewkeys\<close>.
\<close>

theorem keyed_lists_last_wins:
  assumes "Config_init env doc server palette keymap path w = Inr (cfg, w')"
  shows "od_keys (cfg_dashboards cfg) = first_seen (map dash_key (dict_get (doc_dashboards doc) []))
       \<and> distinct (od_keys (cfg_dashboards cfg))
       \<and> od_get (cfg_dashboards cfg) k =
           find (\<lambda>d. dash_key d = k) (rev (dict_get (doc_dashboards doc) []))
       \<and> (\<forall>xs d1 ys d2 zs. dict_get (doc_dashboards doc) [] = xs @ d1 # ys @ d2 # zs
            \<and> dash_key d1 = k \<and> dash_key d2 = k \<and> (\<forall>d \<in> set zs. dash_key d \<noteq> k)
            \<longrightarrow> od_get (cfg_dashboards cfg) k = Some d2
                \<and> length (filter (\<lambda>key. key = k) (od_keys (cfg_dashboards cfg))) = 1)
       \<and> od_keys (cfg_reviewkeys cfg) = first_seen (map rk_key (dict_get (doc_reviewkeys doc) []))
       \<and> distinct (od_keys (cfg_reviewkeys cfg))
       \<and> od_get (cfg_reviewkeys cfg) k =
           find (\<lambda>r. rk_key r = k) (rev (dict_get (doc_reviewkeys doc) []))
       \<and> (\<forall>xs r1 ys r2 zs. dict_get (doc_reviewkeys doc) [] = xs @ r1 # ys @ r2 # zs
            \<and> rk_key r1 = k \<and> rk_key r2 = k \<and> (\<forall>r \<in> set zs. rk_key r \<noteq> k)
            \<longrightarrow> od_get (cfg_reviewkeys cfg) k = Some r2
                \<and> length (filter (\<lambda>key. key = k) (od_keys (cfg_reviewkeys cfg))) = 1)"
proof -
  from assms have d: "cfg_dashboards cfg = load_dashboards doc"
    by (rule init_success)
  from assms have r: "cfg_reviewkeys cfg = load_reviewkeys doc"
    by (rule init_success)
  have once: "length (filter (\<lambda>key. key = k) (first_seen ks)) = 1" if "k \<in> set ks" for ks
    using that by (simp add: filter_eq_distinct distinct_first_seen set_first_seen)
  have dk: "od_keys (cfg_dashboards cfg) = first_seen (map dash_key (dict_get (doc_dashboards doc) []))"
    by (simp add: d load_dashboards_def keyed_keys)
  have dd: "distinct (od_keys (cfg_dashboards cfg))"
    by (simp only: dk distinct_first_seen)
  have dg: "od_get (cfg_dashboards cfg) k =
           find (\<lambda>d. dash_key d = k) (rev (dict_get (doc_dashboards doc) []))"
    by (simp add: d load_dashboards_def keyed_get)
  have rk: "od_keys (cfg_reviewkeys cfg) = first_seen (map rk_key (dict_get (doc_reviewkeys doc) []))"
    by (simp add: r load_reviewkeys_def keyed_keys)
  have rd: "distinct (od_keys (cfg_reviewkeys cfg))"
    by (simp only: rk distinct_first_seen)
  have rg: "od_get (cfg_reviewkeys cfg) k =
           find (\<lambda>r. rk_key r = k) (rev (dict_get (doc_reviewkeys doc) []))"
    by (simp add: r load_reviewkeys_def keyed_get)
  have d2: "\<forall>xs d1 ys d2 zs. dict_get (doc_dashboards doc) [] = xs @ d1 # ys @ d2 # zs
            \<and> dash_key d1 = k \<and> dash_key d2 = k \<and> (\<forall>d \<in> set zs. dash_key d \<noteq> k)
            \<longrightarrow> od_get (cfg_dashboards cfg) k = Some d2
                \<and> length (filter (\<lambda>key. key = k) (od_keys (cfg_dashboards cfg))) = 1"
  proof (intro allI impI, elim conjE)
    fix xs d1 ys d2 zs
    assume l: "dict_get (doc_dashboards doc) [] = xs @ d1 # ys @ d2 # zs"
      and k1: "dash_key d1 = k" and k2: "dash_key d2 = k"
      and z: "\<forall>d \<in> set zs. dash_key d \<noteq> k"
    have m: "k \<in> set (map dash_key (dict_get (doc_dashboards doc) []))"
      using l k1 by simp
    have "find (\<lambda>d. dash_key d = k) (rev (xs @ d1 # ys @ d2 # zs)) = Some d2"
      using k2 z by (rule find_later)
    then have "od_get (cfg_dashboards cfg) k = Some d2"
      by (simp only: dg l)
    moreover have "length (filter (\<lambda>key. key = k) (od_keys (cfg_dashboards cfg))) = 1"
      by (simp only: dk once [OF m])
    ultimately show "od_get (cfg_dashboards cfg) k = Some d2
                \<and> length (filter (\<lambda>key. key = k) (od_keys (cfg_dashboards cfg))) = 1" ..
  qed
  have r2: "\<forall>xs r1 ys r2 zs. dict_get (doc_reviewkeys doc) [] = xs @ r1 # ys @ r2 # zs
            \<and> rk_key r1 = k \<and> rk_key r2 = k \<and> (\<forall>r \<in> set zs. rk_key r \<noteq> k)
            \<longrightarrow> od_get (cfg_reviewkeys cfg) k = Some r2
                \<and> length (filter (\<lambda>key. key = k) (od_keys (cfg_reviewkeys cfg))) = 1"
  proof (intro allI impI, elim conjE)
    fix xs r1 ys r2 zs
    assume l: "dict_get (doc_reviewkeys doc) [] = xs @ r1 # ys @ r2 # zs"
      and k1: "rk_key r1 = k" and k2: "rk_key r2 = k"
      and z: "\<forall>r \<in> set zs. rk_key r \<noteq> k"
    have m: "k \<in> set (map rk_key (dict_get (doc_reviewkeys doc) []))"
      using l k1 by simp
    have "find (\<lambda>r. rk_key r = k) (rev (xs @ r1 # ys @ r2 # zs)) = Some r2"
      using k2 z by (rule find_later)
    then have "od_get (cfg_reviewkeys cfg) k = Some r2"
      by (simp only: rg l)
    moreover have "length (filter (\<lambda>key. key = k) (od_keys (cfg_reviewkeys cfg))) = 1"
      by (simp only: rk once [OF m])
    ultimately show "od_get (cfg_reviewkeys cfg) k = Some r2
                \<and> length (filter (\<lambda>key. key = k) (od_keys (cfg_reviewkeys cfg))) = 1" ..
  qed
  show ?thesis
    by (intro conjI dk dd dg d2 rk rd rg r2)
qed

theorem keyed_lists_last_wins_witness:
  "attr (\<lambda>c. (od_keys (cfg_dashboards c), od_get (cfg_dashboards c) ''f2''))
     (Config_init example_env (example_doc\<lparr>doc_dashboards := Some example_dashboards\<rparr>) None
        ''default'' ''default'' ''~/.gertty.yaml'' example_world)
   = Some ([''f2'', ''f3''], Some (example_dashboards ! 2))"
proof -
  let ?doc = "example_doc\<lparr>doc_dashboards := Some example_dashboards\<rparr>"
  obtain cfg w' where ok:
    "Config_init example_env ?doc None ''default'' ''default'' ''~/.gertty.yaml''
       example_world = Inr (cfg, w')"
    by (simp add: Config_init_def example_defs step_defs Let_def)
  note th = keyed_lists_last_wins [OF ok, of "''f2''"]
  have keys: "od_keys (cfg_dashboards cfg) = [''f2'', ''f3'']"
    using th by (simp add: dict_get_def example_dashboards_def first_seen_def)
  from th have later:
    "\<forall>xs d1 ys d2 zs. dict_get (doc_dashboards ?doc) [] = xs @ d1 # ys @ d2 # zs
            \<and> dash_key d1 = ''f2'' \<and> dash_key d2 = ''f2'' \<and> (\<forall>d \<in> set zs. dash_key d \<noteq> ''f2'')
            \<longrightarrow> od_get (cfg_dashboards cfg) ''f2'' = Some d2
                \<and> length (filter (\<lambda>key. key = ''f2'') (od_keys (cfg_dashboards cfg))) = 1"
    by (elim conjE)
  have "od_get (cfg_dashboards cfg) ''f2'' = Some (example_dashboards ! 2)
      \<and> length (filter (\<lambda>key. key = ''f2'') (od_keys (cfg_dashboards cfg))) = 1"
    by (rule later [rule_format, of "[]" "example_dashboards ! 0" "[example_dashboards ! 1]"
          "example_dashboards ! 2" "[]"])
       (simp add: example_dashboards_def dict_get_def)
  with keys show ?thesis by (simp add: ok)
qed

subsection \<open>Palettes and keymaps merged by name\<close>

lemma insert_or_update_other:
  "entry_name p \<noteq> n \<Longrightarrow> insert_or_update new upd m p n = m n"
  by (simp add: insert_or_update_def split: option.splits)

lemma insert_or_update_same:
  "insert_or_update new upd m p (entry_name p) =
     Some (case m (entry_name p) of None \<Rightarrow> new (entry_fields p)
                                  | Some obj \<Rightarrow> upd obj (entry_fields p))"
  by (simp add: insert_or_update_def split: option.splits)

lemma merged_lookup:
  "foldl (insert_or_update new upd) m ps n =
     (case m n of
        Some b \<Rightarrow> Some (foldl upd b (map entry_fields (filter (\<lambda>p. entry_name p = n) ps)))
      | None \<Rightarrow>
          (case filter (\<lambda>p. entry_name p = n) ps of
             [] \<Rightarrow> None
           | p # rest \<Rightarrow> Some (foldl upd (new (entry_fields p)) (map entry_fields rest))))"
proof (induction ps arbitrary: m)
  case Nil
  show ?case by (simp split: option.splits)
next
  case (Cons p ps)
  show ?case
  proof (cases "entry_name p = n")
    case True
    show ?thesis
    proof (cases "m n")
      case None
      then show ?thesis
        using True insert_or_update_same [of new upd m p]
        by (simp add: Cons.IH)
    next
      case (Some b)
      then show ?thesis
        using True insert_or_update_same [of new upd m p]
        by (simp add: Cons.IH)
    qed
  next
    case False
    then show ?thesis
      by (cases "m n") (simp_all add: Cons.IH insert_or_update_other)
  qed
qed

lemma foldl_map_add: "foldl (++) a fs = a ++ foldl (++) Map.empty fs"
proof (induction fs arbitrary: a)
  case Nil
  show ?case by simp
next
  case (Cons f fs)
  have "foldl (++) (a ++ f) fs = (a ++ f) ++ foldl (++) Map.empty fs"
    by (rule Cons.IH)
  moreover have "foldl (++) (Map.empty ++ f) fs = f ++ foldl (++) Map.empty fs"
    using Cons.IH [of f] by simp
  ultimately show ?case by simp
qed

lemma Palette_merge:
  "foldl Palette_update b fs = Palette (palette_fields b ++ foldl (++) Map.empty fs)"
proof (induction fs arbitrary: b)
  case Nil
  show ?case by simp
next
  case (Cons f fs)
  have "foldl (++) (Map.empty ++ f) fs = f ++ foldl (++) Map.empty fs"
    using foldl_map_add [of f fs] by simp
  moreover have "palette_fields (Palette_update b f) = palette_fields b ++ f"
    by (simp add: Palette_update_def)
  ultimately show ?case by (simp add: Cons.IH)
qed

lemma KeyMap_merge:
  "foldl KeyMap_update b fs = KeyMap (keymap_fields b ++ foldl (++) Map.empty fs)"
proof (induction fs arbitrary: b)
  case Nil
  show ?case by simp
next
  case (Cons f fs)
  have "foldl (++) (Map.empty ++ f) fs = f ++ foldl (++) Map.empty fs"
    using foldl_map_add [of f fs] by simp
  moreover have "keymap_fields (KeyMap_update b f) = keymap_fields b ++ f"
    by (simp add: KeyMap_update_def)
  ultimately show ?case by (simp add: Cons.IH)
qed

lemma user_fields_new:
  assumes "filter (\<lambda>p. entry_name p = n) ps = p # rest"
  shows "entry_fields p ++ foldl (++) Map.empty (map entry_fields rest) = user_fields n ps"
  using assms foldl_map_add [of "entry_fields p" "map entry_fields rest"]
  by (simp add: user_fields_def)

lemma user_fields_single:
  "filter (\<lambda>q. entry_name q = n) ps = [p] \<Longrightarrow> user_fields n ps = entry_fields p"
  by (simp add: user_fields_def)

lemma palettes_lookup:
  "load_palettes env doc n =
     (case builtin_palettes env n of
        Some b \<Rightarrow> Some (Palette (palette_fields b ++ user_fields n (dict_get (doc_palettes doc) [])))
      | None \<Rightarrow>
          if n \<in> entry_name ` set (dict_get (doc_palettes doc) [])
          then Some (Palette (user_fields n (dict_get (doc_palettes doc) [])))
          else None)"
proof (cases "builtin_palettes env n")
  case (Some b)
  then show ?thesis
    by (simp add: load_palettes_def merged_lookup Palette_merge user_fields_def)
next
  case None
  show ?thesis
  proof (cases "filter (\<lambda>p. entry_name p = n) (dict_get (doc_palettes doc) [])")
    case Nil
    then have "n \<notin> entry_name ` set (dict_get (doc_palettes doc) [])"
      by (auto simp: filter_empty_conv)
    with None Nil show ?thesis
      by (simp add: load_palettes_def merged_lookup)
  next
    case (Cons p rest)
    then have "p \<in> set (filter (\<lambda>p. entry_name p = n) (dict_get (doc_palettes doc) []))"
      by simp
    then have "n \<in> entry_name ` set (dict_get (doc_palettes doc) [])"
      by auto
    with None Cons show ?thesis
      by (simp add: load_palettes_def merged_lookup Palette_merge user_fields_new)
  qed
qed

lemma keymaps_lookup:
  "load_keymaps env doc n =
     (case builtin_keymaps env n of
        Some b \<Rightarrow> Some (KeyMap (keymap_fields b ++ user_fields n (dict_get (doc_keymaps doc) [])))
      | None \<Rightarrow>
          if n \<in> entry_name ` set (dict_get (doc_keymaps doc) [])
          then Some (KeyMap (user_fields n (dict_get (doc_keymaps doc) [])))
          else None)"
proof (cases "builtin_keymaps env n")
  case (Some b)
  then show ?thesis
    by (simp add: load_keymaps_def merged_lookup KeyMap_merge user_fields_def)
next
  case None
  show ?thesis
  proof (cases "filter (\<lambda>p. entry_name p = n) (dict_get (doc_keymaps doc) [])")
    case Nil
    then have "n \<notin> entry_name ` set (dict_get (doc_keymaps doc) [])"
      by (auto simp: filter_empty_conv)
    with None Nil show ?thesis
      by (simp add: load_keymaps_def merged_lookup)
  next
    case (Cons p rest)
    then have "p \<in> set (filter (\<lambda>p. entry_name p = n) (dict_get (doc_keymaps doc) []))"
      by simp
    then have "n \<in> entry_name ` set (dict_get (doc_keymaps doc) [])"
      by auto
    with None Cons show ?thesis
      by (simp add: load_keymaps_def merged_lookup KeyMap_merge user_fields_new)
  qed
qed

text \<open>
  C4. For a name that is built in, the resolved entry is the built-in entry's fields
  merged with the fields of the user's entries of that name, the user's fields winning;
  for a name that is new, the resolved entry is a fresh object with the user's fields,
  and a name that is neither built in nor given by the user has no entry. With one
  user entry of the name, the user's fields are that entry's fields. The name
  \<^verbatim>\<open>default\<close> always has an entry. The same holds of keymaps.
\<close>

theorem merge_by_name:
  assumes "Config_init env doc server palette keymap path w = Inr (cfg, w')"
  shows "cfg_palettes cfg n =
           (case builtin_palettes env n of
              Some b \<Rightarrow>
                Some (Palette (palette_fields b ++ user_fields n (dict_get (doc_palettes doc) [])))
            | None \<Rightarrow>
                if n \<in> entry_name ` set (dict_get (doc_palettes doc) [])
                then Some (Palette (user_fields n (dict_get (doc_palettes doc) [])))
                else None)
       \<and> (\<forall>p. filter (\<lambda>q. entry_name q = n) (dict_get (doc_palettes doc) []) = [p]
              \<longrightarrow> user_fields n (dict_get (doc_palettes doc) []) = entry_fields p)
       \<and> cfg_palettes cfg ''default'' \<noteq> None
       \<and> cfg_keymaps cfg n =
           (case builtin_keymaps env n of
              Some b \<Rightarrow>
                Some (KeyMap (keymap_fields b ++ user_fields n (dict_get (doc_keymaps doc) [])))
            | None \<Rightarrow>
                if n \<in> entry_name ` set (dict_get (doc_keymaps doc) [])
                then Some (KeyMap (user_fields n (dict_get (doc_keymaps doc) [])))
                else None)
       \<and> (\<forall>k. filter (\<lambda>q. entry_name q = n) (dict_get (doc_keymaps doc) []) = [k]
              \<longrightarrow> user_fields n (dict_get (doc_keymaps doc) []) = entry_fields k)
       \<and> cfg_keymaps cfg ''default'' \<noteq> None"
proof -
  from assms have p: "cfg_palettes cfg = load_palettes env doc"
    by (rule init_success)
  from assms have k: "cfg_keymaps cfg = load_keymaps env doc"
    by (rule init_success)
  have p1: "cfg_palettes cfg n =
           (case builtin_palettes env n of
              Some b \<Rightarrow>
                Some (Palette (palette_fields b ++ user_fields n (dict_get (doc_palettes doc) [])))
            | None \<Rightarrow>
                if n \<in> entry_name ` set (dict_get (doc_palettes doc) [])
                then Some (Palette (user_fields n (dict_get (doc_palettes doc) [])))
                else None)"
    by (simp only: p palettes_lookup)
  have p2: "\<forall>p. filter (\<lambda>q. entry_name q = n) (dict_get (doc_palettes doc) []) = [p]
              \<longrightarrow> user_fields n (dict_get (doc_palettes doc) []) = entry_fields p"
    by (simp add: user_fields_single)
  have p3: "cfg_palettes cfg ''default'' \<noteq> None"
    by (simp add: p palettes_lookup builtin_palettes_def)
  have k1: "cfg_keymaps cfg n =
           (case builtin_keymaps env n of
              Some b \<Rightarrow>
                Some (KeyMap (keymap_fields b ++ user_fields n (dict_get (doc_keymaps doc) [])))
            | None \<Rightarrow>
                if n \<in> entry_name ` set (dict_get (doc_keymaps doc) [])
                then Some (KeyMap (user_fields n (dict_get (doc_keymaps doc) [])))
                else None)"
    by (simp only: k keymaps_lookup)
  have k2: "\<forall>k. filter (\<lambda>q. entry_name q = n) (dict_get (doc_keymaps doc) []) = [k]
              \<longrightarrow> user_fields n (dict_get (doc_keymaps doc) []) = entry_fields k"
    by (simp add: user_fields_single)
  have k3: "cfg_keymaps cfg ''default'' \<noteq> None"
    by (simp add: k keymaps_lookup builtin_keymaps_def)
  show ?thesis
    by (intro conjI p1 p2 p3 k1 k2 k3)
qed

theorem merge_by_name_witness:
  "attr (\<lambda>c. (cfg_palettes c ''light'', cfg_palettes c ''custom'', cfg_keymaps c ''default''))
     (Config_init example_env (example_doc\<lparr>doc_palettes := Some example_palettes\<rparr>) None
        ''default'' ''default'' ''~/.gertty.yaml'' example_world)
   = Some (Some (Palette [''focused-header'' \<mapsto> [''black'', ''light gray''],
                          ''added-line'' \<mapsto> [''dark green'', ''black'']]),
           Some (Palette [''focused-header'' \<mapsto> [''white'', ''dark blue'']]),
           Some (KeyMap Map.empty))"
proof -
  let ?doc = "example_doc\<lparr>doc_palettes := Some example_palettes\<rparr>"
  obtain cfg w' where ok:
    "Config_init example_env ?doc None ''default'' ''default'' ''~/.gertty.yaml''
       example_world = Inr (cfg, w')"
    by (simp add: Config_init_def example_defs step_defs Let_def example_palettes_def)
  have ps: "dict_get (doc_palettes ?doc) [] = example_palettes"
    by (simp add: dict_get_def)
  have ks: "dict_get (doc_keymaps ?doc) [] = []"
    by (simp add: dict_get_def example_doc_def)
  have l1: "filter (\<lambda>q. entry_name q = ''light'') example_palettes = [example_palettes ! 0]"
    by (simp add: example_palettes_def)
  have c1: "filter (\<lambda>q. entry_name q = ''custom'') example_palettes = [example_palettes ! 1]"
    by (simp add: example_palettes_def)
  note light_th = merge_by_name [OF ok, of "''light''"]
  note custom_th = merge_by_name [OF ok, of "''custom''"]
  note default_th = merge_by_name [OF ok, of "''default''"]
  have lf: "user_fields ''light'' (dict_get (doc_palettes ?doc) []) =
      entry_fields (example_palettes ! 0)"
    by (rule light_th [THEN conjunct2, THEN conjunct1, rule_format]) (simp only: ps l1)
  have cf: "user_fields ''custom'' (dict_get (doc_palettes ?doc) []) =
      entry_fields (example_palettes ! 1)"
    by (rule custom_th [THEN conjunct2, THEN conjunct1, rule_format]) (simp only: ps c1)
  have light: "cfg_palettes cfg ''light'' =
      Some (Palette [''focused-header'' \<mapsto> [''black'', ''light gray''],
                     ''added-line'' \<mapsto> [''dark green'', ''black'']])"
    using light_th [THEN conjunct1, unfolded lf]
    by (simp add: builtin_palettes_def example_env_def example_palettes_def)
  have custom: "cfg_palettes cfg ''custom'' =
      Some (Palette [''focused-header'' \<mapsto> [''white'', ''dark blue'']])"
    using custom_th [THEN conjunct1, unfolded cf]
    by (simp add: dict_get_def builtin_palettes_def example_palettes_def)
  have "cfg_keymaps cfg ''default'' \<noteq> None"
    using default_th by (elim conjE)
  moreover have "cfg_keymaps cfg ''default'' =
      (case builtin_keymaps example_env ''default'' of
         Some b \<Rightarrow> Some (KeyMap (keymap_fields b ++ user_fields ''default'' []))
       | None \<Rightarrow> None)"
    using default_th [THEN conjunct2, THEN conjunct2, THEN conjunct2, THEN conjunct1, unfolded ks]
    by simp
  ultimately have dflt: "cfg_keymaps cfg ''default'' = Some (KeyMap Map.empty)"
    by (simp add: builtin_keymaps_def user_fields_def)
  from light custom dflt show ?thesis by (simp add: ok)
qed

subsection \<open>The size column\<close>


lemma load_size_column_present:
  assumes "doc_size_column doc = Some a" and "a < length h"
  shows "load_size_column doc h =
    (a, h[a := (h ! a)
           (''type'' \<mapsto> dict_get ((h ! a) ''type'') (PyStr ''graph''),
            ''thresholds'' \<mapsto>
              dict_get ((h ! a) ''thresholds'')
                (if dict_get ((h ! a) ''type'') (PyStr ''graph'') = PyStr ''graph''
                 then thresholds_graph else thresholds_other))])"
  using assms by (simp add: load_size_column_def Let_def)



text \<open>
  C10. When the document has a \<^verbatim>\<open>size-column\<close> section, the resolved \<^verbatim>\<open>size_column\<close> is
  the document's own mapping (the same address), and the constructor writes the keys
  \<^verbatim>\<open>type\<close> and \<^verbatim>\<open>thresholds\<close> into it: the mapping the document holds has both keys
  afterwards, so it is changed whenever one of them was absent (and is the same when
  both were there).
\<close>

theorem size_column_in_place:
  assumes "Config_init env doc server palette keymap path w = Inr (cfg, w')"
    and "doc_size_column doc = Some a" and "a < length (heap w)"
  shows "cfg_size_column cfg = a
       \<and> doc_size_column (cfg_config cfg) = Some (cfg_size_column cfg)
       \<and> heap w' = (heap w)[a := (heap w ! a)
           (''type'' \<mapsto> dict_get ((heap w ! a) ''type'') (PyStr ''graph''),
            ''thresholds'' \<mapsto>
              dict_get ((heap w ! a) ''thresholds'')
                (if dict_get ((heap w ! a) ''type'') (PyStr ''graph'') = PyStr ''graph''
                 then thresholds_graph else thresholds_other))]
       \<and> dom (heap w' ! a) = dom (heap w ! a) \<union> {''type'', ''thresholds''}
       \<and> (''type'' \<notin> dom (heap w ! a) \<or> ''thresholds'' \<notin> dom (heap w ! a)
            \<longrightarrow> heap w' ! a \<noteq> heap w ! a)
       \<and> (''type'' \<in> dom (heap w ! a) \<and> ''thresholds'' \<in> dom (heap w ! a)
            \<longrightarrow> heap w' ! a = heap w ! a)"
proof -
  from assms(1) have c: "cfg_size_column cfg = fst (load_size_column doc (heap w))"
    by (rule init_success)
  from assms(1) have h: "heap w' = snd (load_size_column doc (heap w))"
    by (rule init_success)
  from assms(1) have d: "cfg_config cfg = doc"
    by (rule init_success)
  let ?T = "dict_get ((heap w ! a) ''type'') (PyStr ''graph'')"
  let ?TH = "dict_get ((heap w ! a) ''thresholds'')
                (if ?T = PyStr ''graph'' then thresholds_graph else thresholds_other)"
  have c1: "cfg_size_column cfg = a"
    using assms(2,3) by (simp add: c load_size_column_present)
  have c2: "doc_size_column (cfg_config cfg) = Some (cfg_size_column cfg)"
    using assms(2) by (simp add: c1 d)
  have c3: "heap w' = (heap w)[a := (heap w ! a)(''type'' \<mapsto> ?T, ''thresholds'' \<mapsto> ?TH)]"
    using assms(2,3) by (simp add: h load_size_column_present)
  have at: "heap w' ! a = (heap w ! a)(''type'' \<mapsto> ?T, ''thresholds'' \<mapsto> ?TH)"
    using assms(3) by (simp add: c3)
  have in1: "''type'' \<in> dom (heap w' ! a)"
    by (simp add: at)
  have in2: "''thresholds'' \<in> dom (heap w' ! a)"
    by (simp add: at)
  have c4: "dom (heap w' ! a) = dom (heap w ! a) \<union> {''type'', ''thresholds''}"
    unfolding at by (simp add: insert_commute)
  have c5: "''type'' \<notin> dom (heap w ! a) \<or> ''thresholds'' \<notin> dom (heap w ! a)
            \<longrightarrow> heap w' ! a \<noteq> heap w ! a"
    using in1 in2 by metis
  have c6: "''type'' \<in> dom (heap w ! a) \<and> ''thresholds'' \<in> dom (heap w ! a)
            \<longrightarrow> heap w' ! a = heap w ! a"
  proof (intro impI, elim conjE)
    assume "''type'' \<in> dom (heap w ! a)" and "''thresholds'' \<in> dom (heap w ! a)"
    then obtain t th where
      t: "(heap w ! a) ''type'' = Some t" and th: "(heap w ! a) ''thresholds'' = Some th"
      by blast
    have "(heap w ! a)(''type'' \<mapsto> t) = heap w ! a"
      using t by (rule map_upd_triv)
    moreover have "(heap w ! a)(''thresholds'' \<mapsto> th) = heap w ! a"
      using th by (rule map_upd_triv)
    ultimately show "heap w' ! a = heap w ! a"
      by (simp add: at t th dict_get_def)
  qed
  show ?thesis
    by (intro conjI c1 c2 c3 c4 c5 c6)
qed

theorem size_column_in_place_witness:
  "attr cfg_size_column
     (Config_init example_env (example_doc\<lparr>doc_size_column := Some 0\<rparr>) None ''default''
        ''default'' ''~/.gertty.yaml'' example_size_world) = Some 0
   \<and> size_column_of
     (Config_init example_env (example_doc\<lparr>doc_size_column := Some 0\<rparr>) None ''default''
        ''default'' ''~/.gertty.yaml'' example_size_world)
     = Some [''type'' \<mapsto> PyStr ''number'', ''thresholds'' \<mapsto> thresholds_other]
   \<and> heap example_size_world ! 0 = [''type'' \<mapsto> PyStr ''number'']"
proof -
  let ?doc = "example_doc\<lparr>doc_size_column := Some 0\<rparr>"
  obtain cfg w' where ok:
    "Config_init example_env ?doc None ''default'' ''default'' ''~/.gertty.yaml''
       example_size_world = Inr (cfg, w')"
    by (simp add: Config_init_def example_defs step_defs Let_def example_size_world_def)
  have sc: "doc_size_column ?doc = Some 0"
    by simp
  have wf: "0 < length (heap example_size_world)"
    by (simp add: example_size_world_def)
  note th = size_column_in_place [OF ok sc wf]
  have a: "cfg_size_column cfg = 0"
    using th by (elim conjE)
  have "heap w' = (heap example_size_world)[0 := (heap example_size_world ! 0)
           (''type'' \<mapsto> dict_get ((heap example_size_world ! 0) ''type'') (PyStr ''graph''),
            ''thresholds'' \<mapsto>
              dict_get ((heap example_size_world ! 0) ''thresholds'')
                (if dict_get ((heap example_size_world ! 0) ''type'') (PyStr ''graph'')
                    = PyStr ''graph''
                 then thresholds_graph else thresholds_other))]"
    using th by (elim conjE)
  then have h: "heap w' ! 0 = [''type'' \<mapsto> PyStr ''number'', ''thresholds'' \<mapsto> thresholds_other]"
    by (simp add: example_size_world_def dict_get_def)
  have before: "heap example_size_world ! 0 = [''type'' \<mapsto> PyStr ''number'']"
    by (simp add: example_size_world_def)
  from a h before show ?thesis by (simp add: ok)
qed

end
